theory Spec2Isabelle
  imports Main
begin

section \<open>The diagnostic script \<^verbatim>\<open>check_db.py\<close> and the bootstrap \<^verbatim>\<open>app.py\<close>\<close>

text \<open>
  The two source files are glue code over Flask and SQLAlchemy. The embedding below
  follows the source statement by statement; what the libraries and the database do is
  written out as HOL functions after their documented behaviour:
  \<^item> the \<^verbatim>\<open>Term\<close> table is the list of its rows, in the order in which the backend
    returns them for a \<^verbatim>\<open>SELECT\<close> without \<^verbatim>\<open>ORDER BY\<close>; one run of the script sees one
    table (the script is single-threaded and nothing else writes meanwhile);
  \<^item> strings are byte strings and letter case is ASCII letter case;
  \<^item> every call that goes to the database (\<^verbatim>\<open>first()\<close>, \<^verbatim>\<open>count()\<close>, \<^verbatim>\<open>all()\<close>) is one
    round trip that either returns its rows or raises; which round trips raise is given
    by a schedule of outcomes that the run consumes, one entry per round trip.
\<close>

subsection \<open>Strings\<close>

text \<open>Lower-casing as SQL \<^verbatim>\<open>lower()\<close> / \<^verbatim>\<open>ILIKE\<close> does it on ASCII letters.\<close>

definition lower_char :: "char \<Rightarrow> char" where
  "lower_char c =
     (case map_of (zip ''ABCDEFGHIJKLMNOPQRSTUVWXYZ'' ''abcdefghijklmnopqrstuvwxyz'') c of
        Some d \<Rightarrow> d
      | None \<Rightarrow> c)"

definition lower :: "string \<Rightarrow> string" where
  "lower s = map lower_char s"

text \<open>
  SQL \<^verbatim>\<open>LIKE\<close>: \<^verbatim>\<open>%\<close> in the pattern stands for any run of characters, also the empty
  one, \<^verbatim>\<open>_\<close> for any one character, every other character for itself. (An escape
  character is left out: the only pattern of the script, \<^verbatim>\<open>%ice%\<close>, has none.) The pattern
  is the first argument.
\<close>

fun like :: "string \<Rightarrow> string \<Rightarrow> bool" where
  "like [] [] = True"
| "like [] (c # s) = False"
| "like (p # ps) [] = (p = CHR ''%'' \<and> like ps [])"
| "like (p # ps) (c # s) =
     (if p = CHR ''%'' then like ps (c # s) \<or> like (p # ps) s
      else if p = CHR ''_'' then like ps s
      else p = c \<and> like ps s)"

text \<open>Python's \<^verbatim>\<open>str()\<close> of a \<^verbatim>\<open>bool\<close>, of a non-negative \<^verbatim>\<open>int\<close> and of an optional string,
  as an f-string renders them.\<close>

definition str_bool :: "bool \<Rightarrow> string" where
  "str_bool b = (if b then ''True'' else ''False'')"

definition digit :: "nat \<Rightarrow> char" where
  "digit d = ''0123456789'' ! d"

fun str_nat :: "nat \<Rightarrow> string" where
  "str_nat n = (if n < 10 then [digit n] else str_nat (n div 10) @ [digit (n mod 10)])"

declare str_nat.simps [simp del]

definition str_opt :: "string option \<Rightarrow> string" where
  "str_opt v = (case v of None \<Rightarrow> ''None'' | Some s \<Rightarrow> s)"

subsection \<open>The \<^verbatim>\<open>Term\<close> model and queries on it\<close>

text \<open>
  \<^verbatim>\<open>app/term/models.py\<close> is not among the sources. The script reads three columns of a
  row: \<^verbatim>\<open>id\<close>, \<^verbatim>\<open>term_string\<close> and \<^verbatim>\<open>status\<close>. The types of \<^verbatim>\<open>id\<close> and \<^verbatim>\<open>status\<close> are
  parameters (the script only formats them); \<^verbatim>\<open>term_string\<close> is a text column, which may
  hold SQL \<^verbatim>\<open>NULL\<close> (Python \<^verbatim>\<open>None\<close>). The column \<^verbatim>\<open>id\<close> is the field \<open>id_col\<close>, the name
  \<open>id\<close> being taken by the identity function.
\<close>

record ('i, 'st) Term =
  id_col :: 'i
  term_string :: "string option"
  status :: 'st

text \<open>The two criteria the script builds: \<^verbatim>\<open>filter_by(term_string=v)\<close>, that is
  \<^verbatim>\<open>term_string = v\<close>, and \<^verbatim>\<open>Term.term_string.ilike(p)\<close>.\<close>

datatype criterion = Term_string_eq string | Term_string_ilike string

text \<open>A criterion selects a row when it is true of it; on \<^verbatim>\<open>NULL\<close> it is not.\<close>

fun holds :: "criterion \<Rightarrow> ('i, 'st) Term \<Rightarrow> bool" where
  "holds (Term_string_eq v) r = (term_string r = Some v)"
| "holds (Term_string_ilike p) r =
     (case term_string r of None \<Rightarrow> False | Some s \<Rightarrow> like (lower p) (lower s))"

text \<open>A \<^verbatim>\<open>Query\<close> object: the criteria collected so far and the \<^verbatim>\<open>LIMIT\<close>, if any.\<close>

record query =
  whereclause :: "criterion list"
  limit_clause :: "nat option"

definition Term_query :: query where
  "Term_query = \<lparr>whereclause = [], limit_clause = None\<rparr>"

definition Query_filter :: "criterion \<Rightarrow> query \<Rightarrow> query" where
  "Query_filter c q = q\<lparr>whereclause := whereclause q @ [c]\<rparr>"

definition Query_filter_by :: "string \<Rightarrow> query \<Rightarrow> query" where
  "Query_filter_by v q = Query_filter (Term_string_eq v) q"

definition Query_limit :: "nat \<Rightarrow> query \<Rightarrow> query" where
  "Query_limit n q = q\<lparr>limit_clause := Some n\<rparr>"

text \<open>The rows a query selects from a table: those that satisfy every criterion, cut
  at the limit.\<close>

definition select_rows :: "query \<Rightarrow> ('i, 'st) Term list \<Rightarrow> ('i, 'st) Term list" where
  "select_rows q tbl =
     (let rs = filter (\<lambda>r. list_all (\<lambda>c. holds c r) (whereclause q)) tbl
      in case limit_clause q of None \<Rightarrow> rs | Some n \<Rightarrow> take n rs)"

subsection \<open>A run of the script: round trips, output, exceptions\<close>

text \<open>An exception that a call may raise. Nothing in the script inspects it.\<close>

datatype error = OperationalError | ProgrammingError | ConfigError

text \<open>
  What a run reads and writes: the \<^verbatim>\<open>Term\<close> table, the outcomes of the database round
  trips still to come (\<open>None\<close>: the round trip answers; \<open>Some e\<close>: it raises \<open>e\<close>; when the
  list is used up, round trips answer), and the strings given to \<^verbatim>\<open>print\<close> so far, one
  per call (\<^verbatim>\<open>print\<close> ends each with a newline, which is not stored).
\<close>

record ('i, 'st) world =
  term_table :: "('i, 'st) Term list"
  faults :: "error option list"
  stdout :: "string list"

text \<open>A statement either raises or returns a value, and leaves a world behind.\<close>

type_synonym ('i, 'st, 'a) io = "('i, 'st) world \<Rightarrow> (error + 'a) \<times> ('i, 'st) world"

definition return :: "'a \<Rightarrow> ('i, 'st, 'a) io" where
  "return x w = (Inr x, w)"

text \<open>Sequencing: an exception of the first statement skips the rest. The script has
  no \<^verbatim>\<open>try\<close>, so there is no operation that catches.\<close>

definition bind :: "('i, 'st, 'a) io \<Rightarrow> ('a \<Rightarrow> ('i, 'st, 'b) io) \<Rightarrow> ('i, 'st, 'b) io" where
  "bind m f w = (case m w of (Inl e, w') \<Rightarrow> (Inl e, w') | (Inr x, w') \<Rightarrow> f x w')"

definition call :: "error + 'a \<Rightarrow> ('i, 'st, 'a) io" where
  "call r w = (r, w)"

definition print :: "string \<Rightarrow> ('i, 'st, unit) io" where
  "print s w = (Inr (), w\<lparr>stdout := stdout w @ [s]\<rparr>)"

text \<open>One round trip of a \<^verbatim>\<open>SELECT\<close>: it raises if the schedule says so, and otherwise
  returns what \<open>f\<close> reads off the table. The table is only read.\<close>

definition execute :: "(('i, 'st) Term list \<Rightarrow> 'a) \<Rightarrow> ('i, 'st, 'a) io" where
  "execute f w =
     (case faults w of
        [] \<Rightarrow> (Inr (f (term_table w)), w)
      | None # fs \<Rightarrow> (Inr (f (term_table w)), w\<lparr>faults := fs\<rparr>)
      | Some e # fs \<Rightarrow> (Inl e, w\<lparr>faults := fs\<rparr>))"

text \<open>\<^verbatim>\<open>Query.all()\<close> returns the selected rows; \<^verbatim>\<open>Query.first()\<close> asks for one row
  (\<^verbatim>\<open>LIMIT 1\<close>) and returns it, or \<^verbatim>\<open>None\<close>; \<^verbatim>\<open>Query.count()\<close> returns how many rows the
  query selects.\<close>

definition first_row :: "query \<Rightarrow> ('i, 'st) Term list \<Rightarrow> ('i, 'st) Term option" where
  "first_row q tbl = (case select_rows (Query_limit 1 q) tbl of [] \<Rightarrow> None | r # _ \<Rightarrow> Some r)"

definition Query_all :: "query \<Rightarrow> ('i, 'st, ('i, 'st) Term list) io" where
  "Query_all q = execute (select_rows q)"

definition Query_first :: "query \<Rightarrow> ('i, 'st, ('i, 'st) Term option) io" where
  "Query_first q = execute (first_row q)"

definition Query_count :: "query \<Rightarrow> ('i, 'st, nat) io" where
  "Query_count q = execute (\<lambda>tbl. length (select_rows q tbl))"

text \<open>A \<^verbatim>\<open>for\<close> loop over a list, and \<^verbatim>\<open>with app.app_context():\<close>, which runs its body
  and lets an exception of the body pass.\<close>

fun for_each :: "'a list \<Rightarrow> ('a \<Rightarrow> ('i, 'st, unit) io) \<Rightarrow> ('i, 'st, unit) io" where
  "for_each [] body = return ()"
| "for_each (x # xs) body = bind (body x) (\<lambda>_. for_each xs body)"

definition app_context :: "'app \<Rightarrow> ('i, 'st, 'a) io \<Rightarrow> ('i, 'st, 'a) io" where
  "app_context app body = body"

text \<open>
  Modelled from the spec: \<^verbatim>\<open>create_app\<close>, the factory of the package \<^verbatim>\<open>app\<close>, is not among
  the sources. By the spec it builds and configures an application instance and may
  fail on a configuration error; it neither prints nor touches the \<^verbatim>\<open>Term\<close> table. It
  enters \<^verbatim>\<open>check_database\<close> below as the parameter \<open>create_app\<close>: what the call
  \<^verbatim>\<open>create_app()\<close> comes to, an exception or the instance.

  The other two parameters, \<open>str_id\<close> and \<open>str_status\<close>, are how an f-string renders
  the columns \<^verbatim>\<open>id\<close> and \<^verbatim>\<open>status\<close>. The body is \<^verbatim>\<open>check_database\<close> of \<^verbatim>\<open>check_db.py\<close>,
  statement by statement: an argument of \<^verbatim>\<open>print\<close> is evaluated, round trip included,
  before the line is printed.
\<close>

definition check_database ::
    "error + 'app \<Rightarrow> ('i \<Rightarrow> string) \<Rightarrow> ('st \<Rightarrow> string) \<Rightarrow> ('i, 'st, unit) io" where
  "check_database create_app str_id str_status =
     bind (call create_app) (\<lambda>app.
     app_context app (
       bind (Query_first (Query_filter_by ''White ice'' Term_query)) (\<lambda>white_ice.
       bind (Query_first (Query_filter_by ''Young ice'' Term_query)) (\<lambda>young_ice.
       bind (print (''White ice exists: '' @ str_bool (white_ice \<noteq> None))) (\<lambda>_.
       bind (print (''Young ice exists: '' @ str_bool (young_ice \<noteq> None))) (\<lambda>_.
       bind (Query_count Term_query) (\<lambda>n.
       bind (print (''Total terms in database: '' @ str_nat n)) (\<lambda>_.
       bind (print (CHR 0x0A # ''First 10 terms:'')) (\<lambda>_.
       bind (Query_all (Query_limit 10 Term_query)) (\<lambda>rows.
       bind (for_each rows (\<lambda>term.
               print (''- '' @ str_opt (term_string term) @ '' (ID: '' @ str_id (id_col term)
                      @ '', Status: '' @ str_status (status term) @ '')''))) (\<lambda>_.
       bind (Query_all (Query_filter (Term_string_ilike ''%ice%'') Term_query)) (\<lambda>ice_terms.
       bind (print (CHR 0x0A # ''Terms containing '' @ CHR 0x27 # ''ice'' @ CHR 0x27 # '': ''
                    @ str_nat (length ice_terms))) (\<lambda>_.
       for_each ice_terms (\<lambda>term. print (''- '' @ str_opt (term_string term))))))))))))))))"

text \<open>The script run from the command line: \<^verbatim>\<open>check_database()\<close> is called, and the
  interpreter exits with status 0 when it returns and with status 1 when an exception
  leaves it.\<close>

definition main ::
    "error + 'app \<Rightarrow> ('i \<Rightarrow> string) \<Rightarrow> ('st \<Rightarrow> string) \<Rightarrow> ('i, 'st) world
       \<Rightarrow> nat \<times> ('i, 'st) world" where
  "main create_app str_id str_status w =
     (case check_database create_app str_id str_status w of
        (Inr _, w') \<Rightarrow> (0, w')
      | (Inl e, w') \<Rightarrow> (1, w'))"

subsection \<open>The bootstrap \<^verbatim>\<open>app.py\<close>\<close>

text \<open>
  \<^verbatim>\<open>app.py\<close> creates a Flask instance and loads its configuration from the class
  \<^verbatim>\<open>Config\<close> of \<^verbatim>\<open>config.py\<close>, which is not among the sources: \<^verbatim>\<open>Config\<close> is a parameter,
  and so are \<^verbatim>\<open>__name__\<close> and the configuration a new Flask instance starts with.

  An object is the list of its attributes with their values; \<^verbatim>\<open>dir\<close> lists the names
  and \<^verbatim>\<open>getattr\<close> looks one up. The configuration of an instance is a dictionary.
\<close>

type_synonym 'v obj = "(string \<times> 'v) list"

definition dir :: "'v obj \<Rightarrow> string list" where
  "dir obj = map fst obj"

definition getattr :: "'v obj \<Rightarrow> string \<Rightarrow> 'v option" where
  "getattr obj key = map_of obj key"

text \<open>Python's \<^verbatim>\<open>str.isupper()\<close> on ASCII: there is an upper-case letter and no
  lower-case letter.\<close>

definition isupper :: "string \<Rightarrow> bool" where
  "isupper s =
     (list_ex (\<lambda>c. c \<in> set ''ABCDEFGHIJKLMNOPQRSTUVWXYZ'') s
      \<and> list_all (\<lambda>c. c \<notin> set ''abcdefghijklmnopqrstuvwxyz'') s)"

record 'v Flask =
  import_name :: string
  config :: "string \<rightharpoonup> 'v"

definition Flask :: "string \<Rightarrow> (string \<rightharpoonup> 'v) \<Rightarrow> 'v Flask" where
  "Flask name default_config = \<lparr>import_name = name, config = default_config\<rparr>"

text \<open>Flask's \<^verbatim>\<open>Config.from_object\<close>:
  \<^verbatim>\<open>for key in dir(obj): if key.isupper(): self[key] = getattr(obj, key)\<close>.\<close>

definition from_object :: "'v obj \<Rightarrow> (string \<rightharpoonup> 'v) \<Rightarrow> (string \<rightharpoonup> 'v)" where
  "from_object obj cfg =
     fold (\<lambda>key c. if isupper key then c(key := getattr obj key) else c) (dir obj) cfg"

text \<open>The module-level \<^verbatim>\<open>app\<close> of \<^verbatim>\<open>app.py\<close>:
  \<^verbatim>\<open>app = Flask(__name__); app.config.from_object(Config)\<close>.\<close>

definition app :: "string \<Rightarrow> (string \<rightharpoonup> 'v) \<Rightarrow> 'v obj \<Rightarrow> 'v Flask" where
  "app name default_config Config =
     (let app = Flask name default_config
      in app\<lparr>config := from_object Config (config app)\<rparr>)"

subsection \<open>Notions of the claims\<close>

text \<open>\<open>s\<close> contains \<open>sub\<close> when letter case is ignored: the lower-cased \<open>sub\<close> occurs in
  the lower-cased \<open>s\<close> as a run of consecutive characters.\<close>

definition ci_contains :: "string \<Rightarrow> string \<Rightarrow> bool" where
  "ci_contains sub s = (\<exists>u v. lower s = u @ lower sub @ v)"

text \<open>The first exception in a schedule of round-trip outcomes, if there is one.\<close>

fun first_fault :: "error option list \<Rightarrow> error option" where
  "first_fault [] = None"
| "first_fault (None # fs) = first_fault fs"
| "first_fault (Some e # fs) = Some e"

text \<open>The number that a decimal numeral denotes.\<close>

definition digit_val :: "char \<Rightarrow> nat" where
  "digit_val c = of_char c - 48"

definition read_nat :: "string \<Rightarrow> nat" where
  "read_nat s = foldl (\<lambda>a c. 10 * a + digit_val c) 0 s"

text \<open>Shorthand for the last query of the script and for the text in front of the
  number in its heading.\<close>

abbreviation ice_query :: query where
  "ice_query \<equiv> Query_filter (Term_string_ilike ''%ice%'') Term_query"

abbreviation ice_header :: string where
  "ice_header \<equiv> CHR 0x0A # ''Terms containing '' @ CHR 0x27 # ''ice'' @ CHR 0x27 # '': ''"

subsection \<open>Sample data\<close>

definition sample_terms :: "(nat, string) Term list" where
  "sample_terms =
     [\<lparr>id_col = 1, term_string = Some ''White ice'', status = ''published''\<rparr>,
      \<lparr>id_col = 2, term_string = Some ''Snow'', status = ''archived''\<rparr>,
      \<lparr>id_col = 3, term_string = None, status = ''archived''\<rparr>,
      \<lparr>id_col = 4, term_string = Some ''ICEBERG'', status = ''archived''\<rparr>]"

definition sample_world :: "(nat, string) world" where
  "sample_world = \<lparr>term_table = sample_terms, faults = [None, None], stdout = []\<rparr>"

definition interrupted_world :: "(nat, string) world" where
  "interrupted_world =
     \<lparr>term_table = sample_terms, faults = [None, None, None, Some OperationalError],
      stdout = []\<rparr>"

definition empty_world :: "(nat, string) world" where
  "empty_world = \<lparr>term_table = [], faults = [], stdout = []\<rparr>"



section \<open>Properties\<close>

subsection \<open>Pattern matching\<close>

lemma like_nil [simp]: "like [] s \<longleftrightarrow> s = []"
  by (cases s) simp_all

lemma like_percent: "like (CHR ''%'' # ps) s \<longleftrightarrow> (\<exists>u v. s = u @ v \<and> like ps v)"
proof (induction s)
  case Nil
  then show ?case by simp
next
  case (Cons c s)
  show ?case
  proof
    assume "like (CHR ''%'' # ps) (c # s)"
    then consider "like ps (c # s)" | "like (CHR ''%'' # ps) s"
      by auto
    then show "\<exists>u v. c # s = u @ v \<and> like ps v"
    proof cases
      case 1
      then have "c # s = [] @ (c # s) \<and> like ps (c # s)" by simp
      then show ?thesis by blast
    next
      case 2
      with Cons.IH obtain u v where "s = u @ v" "like ps v" by blast
      then have "c # s = (c # u) @ v \<and> like ps v" by simp
      then show ?thesis by blast
    qed
  next
    assume "\<exists>u v. c # s = u @ v \<and> like ps v"
    then obtain u v where uv: "c # s = u @ v" "like ps v" by blast
    show "like (CHR ''%'' # ps) (c # s)"
    proof (cases u)
      case Nil
      with uv have "like ps (c # s)" by simp
      then show ?thesis by simp
    next
      case (Cons a u')
      with uv have "s = u' @ v" by simp
      with uv(2) Cons.IH have "like (CHR ''%'' # ps) s" by blast
      then show ?thesis by simp
    qed
  qed
qed

lemma like_literal:
  "p \<noteq> CHR ''%'' \<Longrightarrow> p \<noteq> CHR ''_'' \<Longrightarrow> like (p # ps) s \<longleftrightarrow> (\<exists>t. s = p # t \<and> like ps t)"
  by (cases s) auto

lemma like_percent_only [simp]: "like ''%'' s"
  by (simp add: like_percent)

lemma like_ice: "like ''%ice%'' s \<longleftrightarrow> (\<exists>u v. s = u @ ''ice'' @ v)"
proof
  assume "like ''%ice%'' s"
  then show "\<exists>u v. s = u @ ''ice'' @ v"
    by (auto simp: like_percent like_literal)
next
  assume "\<exists>u v. s = u @ ''ice'' @ v"
  then obtain u v where s: "s = u @ ''ice'' @ v" by blast
  have "like ''ice%'' (''ice'' @ v)"
    by (simp add: like_percent)
  with s show "like ''%ice%'' s"
    unfolding like_percent [of "''ice%''"] by blast
qed

lemma lower_ice [simp]: "lower ''%ice%'' = ''%ice%''" "lower ''ice'' = ''ice''"
  by (simp_all add: lower_def lower_char_def)

lemma ilike_ice: "like ''%ice%'' (lower s) \<longleftrightarrow> ci_contains ''ice'' s"
  by (simp add: like_ice ci_contains_def)

lemma select_rows_ilike:
  "set (select_rows ice_query tbl) =
     {r \<in> set tbl. \<exists>s. term_string r = Some s \<and> ci_contains ''ice'' s}"
  by (auto simp: select_rows_def Query_filter_def Term_query_def ilike_ice
           split: option.splits)


subsection \<open>Query results\<close>

lemma select_rows_Term_query [simp]: "select_rows Term_query tbl = tbl"
  by (simp add: select_rows_def Term_query_def)

lemma select_rows_limit [simp]: "select_rows (Query_limit n Term_query) tbl = take n tbl"
  by (simp add: select_rows_def Term_query_def Query_limit_def)

lemma select_rows_ilike_filter:
  "select_rows ice_query tbl =
     filter (\<lambda>r. \<exists>s. term_string r = Some s \<and> ci_contains ''ice'' s) tbl"
proof -
  have "holds (Term_string_ilike ''%ice%'') r \<longleftrightarrow>
          (\<exists>s. term_string r = Some s \<and> ci_contains ''ice'' s)" for r :: "('a, 'b) Term"
    by (simp add: ilike_ice split: option.splits)
  then show ?thesis
    by (simp add: select_rows_def Query_filter_def Term_query_def)
qed

lemma first_row_filter_by:
  "first_row (Query_filter_by v Term_query) tbl = find (\<lambda>r. term_string r = Some v) tbl"
proof -
  have "first_row (Query_filter_by v Term_query) tbl =
          (case take 1 (filter (\<lambda>r. term_string r = Some v) tbl) of
             [] \<Rightarrow> None
           | r # _ \<Rightarrow> Some r)"
    by (simp add: first_row_def select_rows_def Query_filter_by_def Query_filter_def
        Query_limit_def Term_query_def)
  also have "\<dots> = find (\<lambda>r. term_string r = Some v) tbl"
    by (induction tbl) simp_all
  finally show ?thesis .
qed

lemma first_row_found:
  "first_row (Query_filter_by v Term_query) tbl \<noteq> None \<longleftrightarrow>
     (\<exists>r \<in> set tbl. term_string r = Some v)"
  by (auto simp: first_row_filter_by find_None_iff)

lemma first_row_found_Some:
  "(\<exists>y. first_row (Query_filter_by v Term_query) tbl = Some y) \<longleftrightarrow>
     (\<exists>r \<in> set tbl. term_string r = Some v)"
  using first_row_found [of v tbl] by simp

lemma ci_contains_White_ice: "ci_contains ''ice'' ''White ice''"
proof -
  have "lower ''White ice'' = ''white '' @ lower ''ice'' @ []"
    by (simp add: lower_def lower_char_def)
  then show ?thesis unfolding ci_contains_def by blast
qed


subsection \<open>Decimal numerals\<close>

lemma digit_val_digit: "d < 10 \<Longrightarrow> digit_val (digit d) = d"
proof -
  assume "d < 10"
  then have "d \<in> {0, 1, 2, 3, 4, 5, 6, 7, 8, 9}" by auto
  then show ?thesis by (auto simp: digit_val_def digit_def)
qed

lemma read_nat_str_nat: "read_nat (str_nat n) = n"
proof (induction n rule: str_nat.induct)
  case (1 n)
  show ?case
  proof (cases "n < 10")
    case True
    then show ?thesis by (simp add: str_nat.simps [of n] read_nat_def digit_val_digit)
  next
    case False
    with 1 have "read_nat (str_nat (n div 10)) = n div 10" by simp
    with False show ?thesis
      by (simp add: str_nat.simps [of n] read_nat_def digit_val_digit)
  qed
qed

subsection \<open>Runs in which no round trip raises\<close>

lemma for_each_print:
  "for_each xs (\<lambda>x. print (f x)) w = (Inr (), w\<lparr>stdout := stdout w @ map f xs\<rparr>)"
  by (induction xs arbitrary: w) (simp_all add: return_def bind_def print_def)

lemma bind_execute:
  "bind (execute f) g w =
     (case faults w of
        [] \<Rightarrow> g (f (term_table w)) w
      | None # fs \<Rightarrow> g (f (term_table w)) (w\<lparr>faults := fs\<rparr>)
      | Some e # fs \<Rightarrow> (Inl e, w\<lparr>faults := fs\<rparr>))"
  by (simp add: bind_def execute_def split: list.splits option.splits)

lemma bind_print: "bind (print s) g w = g () (w\<lparr>stdout := stdout w @ [s]\<rparr>)"
  by (simp add: bind_def print_def)

lemma bind_for_each_print:
  "bind (for_each xs (\<lambda>x. print (f x))) g w = g () (w\<lparr>stdout := stdout w @ map f xs\<rparr>)"
  by (simp add: bind_def for_each_print)

lemma bind_call: "bind (call r) g w = (case r of Inl e \<Rightarrow> (Inl e, w) | Inr x \<Rightarrow> g x w)"
  by (simp add: bind_def call_def split: sum.splits)

lemmas run_simps =
  check_database_def app_context_def Query_first_def Query_all_def Query_count_def
  bind_call bind_execute bind_print bind_for_each_print for_each_print

text \<open>A schedule whose first five outcomes hold no exception has one of six shapes.\<close>

lemma healthy_shape:
  assumes "first_fault (take 5 fs) = None"
  obtains "fs = []" | "fs = [None]" | "fs = [None, None]" | "fs = [None, None, None]"
    | "fs = [None, None, None, None]"
    | rest where "fs = None # None # None # None # None # rest"
proof -
  have take5: "take 5 (a # b # c # d # e # xs) = [a, b, c, d, e]" for a b c d e :: "error option" and xs
    by (simp add: numeral_eq_Suc)
  show ?thesis
  proof (cases fs)
    case Nil
    then show ?thesis using that(1) by simp
  next
    case f1: (Cons a1 fs1)
    with assms have a1: "a1 = None" by (cases a1) simp_all
    show ?thesis
    proof (cases fs1)
      case Nil
      with f1 a1 show ?thesis using that(2) by simp
    next
      case f2: (Cons a2 fs2)
      with assms f1 a1 have a2: "a2 = None" by (cases a2) simp_all
      show ?thesis
      proof (cases fs2)
        case Nil
        with f1 a1 f2 a2 show ?thesis using that(3) by simp
      next
        case f3: (Cons a3 fs3)
        with assms f1 a1 f2 a2 have a3: "a3 = None" by (cases a3) simp_all
        show ?thesis
        proof (cases fs3)
          case Nil
          with f1 a1 f2 a2 f3 a3 show ?thesis using that(4) by simp
        next
          case f4: (Cons a4 fs4)
          with assms f1 a1 f2 a2 f3 a3 have a4: "a4 = None" by (cases a4) simp_all
          show ?thesis
          proof (cases fs4)
            case Nil
            with f1 a1 f2 a2 f3 a3 f4 a4 show ?thesis using that(5) by simp
          next
            case f5: (Cons a5 fs5)
            with assms f1 a1 f2 a2 f3 a3 f4 a4 have a5: "a5 = None"
              by (cases a5) (simp_all add: take5)
            with f1 a1 f2 a2 f3 a3 f4 a4 f5 show ?thesis using that(6) by simp
          qed
        qed
      qed
    qed
  qed
qed

text \<open>When none of the five round trips raises, the run returns, has used up five
  outcomes and has printed the report.\<close>

lemma check_database_run:
  assumes "first_fault (take 5 (faults w)) = None"
  shows "check_database (Inr a) sid sst w =
     (Inr (),
      w\<lparr>faults := drop 5 (faults w),
        stdout := stdout w @
          [''White ice exists: ''
             @ str_bool (first_row (Query_filter_by ''White ice'' Term_query) (term_table w) \<noteq> None),
           ''Young ice exists: ''
             @ str_bool (first_row (Query_filter_by ''Young ice'' Term_query) (term_table w) \<noteq> None),
           ''Total terms in database: '' @ str_nat (length (select_rows Term_query (term_table w))),
           CHR 0x0A # ''First 10 terms:'']
          @ map (\<lambda>term. ''- '' @ str_opt (term_string term) @ '' (ID: '' @ sid (id_col term)
                      @ '', Status: '' @ sst (status term) @ '')'')
              (select_rows (Query_limit 10 Term_query) (term_table w))
          @ [ice_header @ str_nat (length (select_rows ice_query (term_table w)))]
          @ map (\<lambda>term. ''- '' @ str_opt (term_string term))
              (select_rows ice_query (term_table w))\<rparr>)"
proof (cases w)
  case (fields tbl fs out)
  from assms fields have "first_fault (take 5 fs) = None" by simp
  then show ?thesis
    by (cases fs rule: healthy_shape) (simp_all add: fields run_simps)
qed

lemma stdout_run:
  assumes "first_fault (take 5 (faults w)) = None"
  shows "stdout (snd (check_database (Inr a) sid sst w)) =
     stdout w @
       [''White ice exists: ''
          @ str_bool (\<exists>r \<in> set (term_table w). term_string r = Some ''White ice''),
        ''Young ice exists: ''
          @ str_bool (\<exists>r \<in> set (term_table w). term_string r = Some ''Young ice''),
        ''Total terms in database: '' @ str_nat (length (term_table w)),
        CHR 0x0A # ''First 10 terms:'']
       @ map (\<lambda>term. ''- '' @ str_opt (term_string term) @ '' (ID: '' @ sid (id_col term)
                      @ '', Status: '' @ sst (status term) @ '')'')
           (take 10 (term_table w))
       @ [ice_header @ str_nat (length (select_rows ice_query (term_table w)))]
       @ map (\<lambda>term. ''- '' @ str_opt (term_string term))
           (select_rows ice_query (term_table w))"
  by (simp add: check_database_run [OF assms] first_row_found_Some)

text \<open>Where the heading of the last section stands in the output, and what follows it.\<close>

lemma ice_section:
  assumes "first_fault (take 5 (faults w)) = None"
  shows "stdout (snd (check_database (Inr a) sid sst w))
           ! (length (stdout w) + 4 + min 10 (length (term_table w))) =
         ice_header @ str_nat (length (select_rows ice_query (term_table w)))"
    and "drop (length (stdout w) + 4 + min 10 (length (term_table w)) + 1)
           (stdout (snd (check_database (Inr a) sid sst w))) =
         map (\<lambda>term. ''- '' @ str_opt (term_string term)) (select_rows ice_query (term_table w))"
proof -
  let ?out = "stdout (snd (check_database (Inr a) sid sst w))"
  let ?n = "length (stdout w) + 4 + min 10 (length (term_table w))"
  let ?ice = "select_rows ice_query (term_table w)"
  define pre where "pre = stdout w @
       [''White ice exists: ''
          @ str_bool (\<exists>r \<in> set (term_table w). term_string r = Some ''White ice''),
        ''Young ice exists: ''
          @ str_bool (\<exists>r \<in> set (term_table w). term_string r = Some ''Young ice''),
        ''Total terms in database: '' @ str_nat (length (term_table w)),
        CHR 0x0A # ''First 10 terms:'']
       @ map (\<lambda>term. ''- '' @ str_opt (term_string term) @ '' (ID: '' @ sid (id_col term)
                      @ '', Status: '' @ sst (status term) @ '')'')
           (take 10 (term_table w))"
  have out: "?out = pre @ (ice_header @ str_nat (length ?ice))
                 # map (\<lambda>term. ''- '' @ str_opt (term_string term)) ?ice"
    by (simp add: pre_def stdout_run [OF assms])
  have len: "length pre = ?n" by (simp add: pre_def)
  show "?out ! ?n = ice_header @ str_nat (length ?ice)"
    unfolding out len [symmetric] by (rule nth_append_length)
  show "drop (?n + 1) ?out = map (\<lambda>term. ''- '' @ str_opt (term_string term)) ?ice"
    unfolding out len [symmetric] by simp
qed

text \<open>The output up to the point where the two lookups, and then the count, have
  come back; what happens to later round trips does not matter for it.\<close>

lemma stdout_after_lookups:
  assumes "first_fault (take 2 (faults w)) = None"
  shows "take (length (stdout w) + 2) (stdout (snd (check_database (Inr a) sid sst w))) =
     stdout w @
       [''White ice exists: ''
          @ str_bool (\<exists>r \<in> set (term_table w). term_string r = Some ''White ice''),
        ''Young ice exists: ''
          @ str_bool (\<exists>r \<in> set (term_table w). term_string r = Some ''Young ice'')]"
proof (cases w)
  case (fields tbl fs out)
  from assms fields have "first_fault (take 2 fs) = None" by simp
  then consider "fs = []" | "fs = [None]" | rest where "fs = None # None # rest"
    by (cases fs rule: first_fault.cases; cases "tl fs" rule: first_fault.cases)
      (auto simp: numeral_2_eq_2)
  then show ?thesis
  proof cases
    case 1
    then show ?thesis by (simp add: fields run_simps first_row_found_Some)
  next
    case 2
    then show ?thesis by (simp add: fields run_simps first_row_found_Some)
  next
    case 3
    then show ?thesis
      by (simp add: fields run_simps first_row_found_Some split: list.splits option.splits)
  qed
qed

lemma stdout_after_count:
  assumes "first_fault (take 3 (faults w)) = None"
  shows "take (length (stdout w) + 3) (stdout (snd (check_database (Inr a) sid sst w))) =
     stdout w @
       [''White ice exists: ''
          @ str_bool (\<exists>r \<in> set (term_table w). term_string r = Some ''White ice''),
        ''Young ice exists: ''
          @ str_bool (\<exists>r \<in> set (term_table w). term_string r = Some ''Young ice''),
        ''Total terms in database: '' @ str_nat (length (term_table w))]"
proof (cases w)
  case (fields tbl fs out)
  from assms fields have "first_fault (take 3 fs) = None" by simp
  then consider "fs = []" | "fs = [None]" | "fs = [None, None]"
    | rest where "fs = None # None # None # rest"
    by (cases fs rule: first_fault.cases; cases "tl fs" rule: first_fault.cases;
        cases "tl (tl fs)" rule: first_fault.cases)
      (auto simp: numeral_3_eq_3)
  then show ?thesis
  proof cases
    case 4
    then show ?thesis
      by (simp add: fields run_simps first_row_found_Some split: list.splits option.splits)
  qed (simp_all add: fields run_simps first_row_found_Some)
qed

text \<open>
  C2. In a run in which the two lookups and the count do not raise, the third line
  printed is \<^verbatim>\<open>Total terms in database: N\<close>, where \<open>N\<close> is the decimal numeral of the number
  of rows of the \<^verbatim>\<open>Term\<close> table: read back as a number, the text after the colon is the
  number of rows.
\<close>

theorem count_printed:
  assumes "first_fault (take 3 (faults w)) = None"
  shows "stdout (snd (check_database (Inr a) sid sst w)) ! (length (stdout w) + 2) =
           ''Total terms in database: '' @ str_nat (length (term_table w))
         \<and> read_nat (drop (length ''Total terms in database: '')
              (stdout (snd (check_database (Inr a) sid sst w)) ! (length (stdout w) + 2))) =
           length (term_table w)"
proof -
  let ?out = "stdout (snd (check_database (Inr a) sid sst w))"
  have "?out ! (length (stdout w) + 2) = take (length (stdout w) + 3) ?out ! (length (stdout w) + 2)"
    by simp
  also have "\<dots> = ''Total terms in database: '' @ str_nat (length (term_table w))"
    unfolding stdout_after_count [OF assms] by (simp add: nth_append)
  finally show ?thesis
    by (simp add: read_nat_str_nat)
qed

theorem count_printed_witness:
  "first_fault (take 3 (faults interrupted_world)) = None
   \<and> stdout (snd (check_database (Inr ()) str_nat (\<lambda>s. s) interrupted_world)) ! 2 =
       ''Total terms in database: 4''
   \<and> read_nat (drop (length ''Total terms in database: '')
        (stdout (snd (check_database (Inr ()) str_nat (\<lambda>s. s) interrupted_world)) ! 2)) = 4"
proof -
  have h: "first_fault (take 3 (faults interrupted_world)) = None"
    by (simp add: interrupted_world_def numeral_3_eq_3)
  have eqs: "length (stdout interrupted_world) + 2 = 2"
    "length (term_table interrupted_world) = 4"
    by (simp_all add: interrupted_world_def sample_terms_def)
  have four: "str_nat 4 = ''4''"
    by (simp add: str_nat.simps digit_def)
  show ?thesis
    using h count_printed [OF h, of "()" str_nat "\<lambda>s. s", unfolded eqs four]
    by (simp add: read_nat_def digit_val_def)
qed

text \<open>
  C3. When the table holds a row whose \<open>term_string\<close> is exactly \<^verbatim>\<open>White ice\<close>, the lookup
  \<^verbatim>\<open>filter_by(term_string='White ice').first()\<close> does not return \<^verbatim>\<open>None\<close>, and a run in
  which the two lookups do not raise prints \<^verbatim>\<open>White ice exists: True\<close> as its first line.
\<close>

theorem white_ice_exists:
  assumes "first_fault (take 2 (faults w)) = None"
    and "r \<in> set (term_table w)" and "term_string r = Some ''White ice''"
  shows "first_row (Query_filter_by ''White ice'' Term_query) (term_table w) \<noteq> None
         \<and> stdout (snd (check_database (Inr a) sid sst w)) ! length (stdout w) =
             ''White ice exists: True''"
proof -
  let ?out = "stdout (snd (check_database (Inr a) sid sst w))"
  from assms(2,3) have ex: "\<exists>r \<in> set (term_table w). term_string r = Some ''White ice''"
    by blast
  have "?out ! length (stdout w) = take (length (stdout w) + 2) ?out ! length (stdout w)"
    by simp
  also have "\<dots> = ''White ice exists: True''"
    unfolding stdout_after_lookups [OF assms(1)] using ex by (simp add: str_bool_def)
  finally show ?thesis
    using ex by (simp add: first_row_found_Some)
qed

theorem white_ice_exists_witness:
  "first_fault (take 2 (faults interrupted_world)) = None
   \<and> \<lparr>id_col = 1, term_string = Some ''White ice'', status = ''published''\<rparr>
       \<in> set (term_table interrupted_world)
   \<and> first_row (Query_filter_by ''White ice'' Term_query) (term_table interrupted_world) \<noteq> None
   \<and> stdout (snd (check_database (Inr ()) str_nat (\<lambda>s. s) interrupted_world)) ! 0 =
       ''White ice exists: True''"
proof -
  let ?r = "\<lparr>id_col = 1 :: nat, term_string = Some ''White ice'', status = ''published''\<rparr>"
  have h1: "first_fault (take 2 (faults interrupted_world)) = None"
    by (simp add: interrupted_world_def numeral_2_eq_2)
  have h2: "?r \<in> set (term_table interrupted_world)"
    by (simp add: interrupted_world_def sample_terms_def)
  have h3: "term_string ?r = Some ''White ice''" by simp
  have eq: "length (stdout interrupted_world) = 0"
    by (simp add: interrupted_world_def)
  show ?thesis
    using h1 h2 white_ice_exists [OF h1 h2 h3, of "()" str_nat "\<lambda>s. s", unfolded eq]
    by simp
qed

text \<open>
  C4. Against an empty \<^verbatim>\<open>Term\<close> table, a run in which no database call raises prints
  exactly five strings: the two existence lines with \<^verbatim>\<open>False\<close>, the line
  \<^verbatim>\<open>Total terms in database: 0\<close>, the heading of the listing and the heading of the
  \<^verbatim>\<open>ice\<close> section with count 0. No term is listed under either heading.
\<close>

theorem empty_table_output:
  assumes "first_fault (take 5 (faults w)) = None" and "term_table w = []"
  shows "stdout (snd (check_database (Inr a) sid sst w)) =
     stdout w @
       [''White ice exists: False'', ''Young ice exists: False'', ''Total terms in database: 0'',
        CHR 0x0A # ''First 10 terms:'', ice_header @ ''0'']"
  by (simp add: stdout_run [OF assms(1)] assms(2) select_rows_ilike_filter str_bool_def
      str_nat.simps digit_def)

theorem empty_table_output_witness:
  "first_fault (take 5 (faults empty_world)) = None \<and> term_table empty_world = []
   \<and> stdout (snd (check_database (Inr ()) str_nat (\<lambda>s. s) empty_world)) =
       [''White ice exists: False'', ''Young ice exists: False'', ''Total terms in database: 0'',
        CHR 0x0A # ''First 10 terms:'', ice_header @ ''0'']"
proof -
  have h1: "first_fault (take 5 (faults empty_world)) = None"
    by (simp add: empty_world_def)
  have h2: "term_table empty_world = []"
    by (simp add: empty_world_def)
  show ?thesis
    using h1 h2 empty_table_output [OF h1 h2, of "()" str_nat "\<lambda>s. s"]
    by (simp add: empty_world_def)
qed



text \<open>
  C9. When the exact-match lookup for \<^verbatim>\<open>White ice\<close> returns a row \<open>r\<close>, a run in which no
  database call raises prints \<^verbatim>\<open>White ice exists: True\<close>; \<open>r\<close> is among the rows that the
  \<^verbatim>\<open>ilike('%ice%')\<close> query returns, so that result is not empty; and the heading of the
  \<^verbatim>\<open>ice\<close> section shows the length of that result, which is at least 1.
\<close>

theorem white_ice_among_ice_terms:
  assumes "first_fault (take 5 (faults w)) = None"
    and "first_row (Query_filter_by ''White ice'' Term_query) (term_table w) = Some r"
  shows "stdout (snd (check_database (Inr a) sid sst w)) ! length (stdout w) =
           ''White ice exists: True''
   \<and> r \<in> set (select_rows ice_query (term_table w))
   \<and> select_rows ice_query (term_table w) \<noteq> []
   \<and> stdout (snd (check_database (Inr a) sid sst w))
           ! (length (stdout w) + 4 + min 10 (length (term_table w))) =
         ice_header @ str_nat (length (select_rows ice_query (term_table w)))
   \<and> 1 \<le> length (select_rows ice_query (term_table w))"
proof -
  let ?out = "stdout (snd (check_database (Inr a) sid sst w))"
  let ?ice = "select_rows ice_query (term_table w)"
  from assms(2) have r: "r \<in> set (term_table w)" "term_string r = Some ''White ice''"
    by (auto simp: first_row_filter_by find_Some_iff)
  then have ex: "\<exists>r \<in> set (term_table w). term_string r = Some ''White ice''" by blast
  then have line: "?out ! length (stdout w) = ''White ice exists: True''"
    by (simp add: stdout_run [OF assms(1)] nth_append str_bool_def)
  from r have mem: "r \<in> set ?ice"
    by (simp add: select_rows_ilike ci_contains_White_ice)
  then have ne: "?ice \<noteq> []" by auto
  then have pos: "1 \<le> length ?ice" by (cases ?ice) simp_all
  note hdr = ice_section(1) [OF assms(1), of a sid sst]
  from line mem ne hdr pos show ?thesis by blast
qed

theorem white_ice_among_ice_terms_witness:
  "first_fault (take 5 (faults sample_world)) = None
   \<and> first_row (Query_filter_by ''White ice'' Term_query) (term_table sample_world) =
       Some \<lparr>id_col = 1, term_string = Some ''White ice'', status = ''published''\<rparr>
   \<and> stdout (snd (check_database (Inr ()) str_nat (\<lambda>s. s) sample_world)) ! 0 =
       ''White ice exists: True''
   \<and> \<lparr>id_col = 1, term_string = Some ''White ice'', status = ''published''\<rparr>
       \<in> set (select_rows ice_query (term_table sample_world))
   \<and> stdout (snd (check_database (Inr ()) str_nat (\<lambda>s. s) sample_world)) ! 8 =
       ice_header @ ''2''"
proof -
  have h1: "first_fault (take 5 (faults sample_world)) = None"
    by (simp add: sample_world_def)
  have h2: "first_row (Query_filter_by ''White ice'' Term_query) (term_table sample_world) =
       Some \<lparr>id_col = 1, term_string = Some ''White ice'', status = ''published''\<rparr>"
    by (simp add: first_row_filter_by sample_world_def sample_terms_def)
  have ice: "select_rows ice_query sample_terms =
       [\<lparr>id_col = 1, term_string = Some ''White ice'', status = ''published''\<rparr>,
        \<lparr>id_col = 4, term_string = Some ''ICEBERG'', status = ''archived''\<rparr>]"
    by (simp add: select_rows_def Query_filter_def Term_query_def sample_terms_def
        lower_def lower_char_def)
  have tbl: "term_table sample_world = sample_terms" "stdout sample_world = []"
    by (simp_all add: sample_world_def)
  have len: "length sample_terms = 4" by (simp add: sample_terms_def)
  show ?thesis
    using h1 h2 white_ice_among_ice_terms [OF h1 h2, of "()" str_nat "\<lambda>s. s"]
    by (simp add: tbl ice len str_nat.simps digit_def)
qed

text \<open>
  C10. In a run in which no database call raises, the heading of the \<^verbatim>\<open>ice\<close> section shows
  the length of the list \<^verbatim>\<open>ice_terms\<close>; what follows the heading, to the end of the output,
  is one line for each element of that list; hence the number in the heading, read back
  as a number, is the number of lines printed after it.
\<close>

theorem ice_count_matches_lines:
  assumes "first_fault (take 5 (faults w)) = None"
  shows "stdout (snd (check_database (Inr a) sid sst w))
           ! (length (stdout w) + 4 + min 10 (length (term_table w))) =
         ice_header @ str_nat (length (select_rows ice_query (term_table w)))
   \<and> drop (length (stdout w) + 4 + min 10 (length (term_table w)) + 1)
        (stdout (snd (check_database (Inr a) sid sst w))) =
         map (\<lambda>term. ''- '' @ str_opt (term_string term)) (select_rows ice_query (term_table w))
   \<and> read_nat (drop (length ice_header)
        (stdout (snd (check_database (Inr a) sid sst w))
           ! (length (stdout w) + 4 + min 10 (length (term_table w))))) =
       length (drop (length (stdout w) + 4 + min 10 (length (term_table w)) + 1)
         (stdout (snd (check_database (Inr a) sid sst w))))"
  unfolding ice_section [OF assms] by (simp add: read_nat_str_nat)

theorem ice_count_matches_lines_witness:
  "first_fault (take 5 (faults sample_world)) = None
   \<and> stdout (snd (check_database (Inr ()) str_nat (\<lambda>s. s) sample_world)) ! 8 =
       ice_header @ ''2''
   \<and> drop 9 (stdout (snd (check_database (Inr ()) str_nat (\<lambda>s. s) sample_world))) =
       [''- White ice'', ''- ICEBERG'']
   \<and> length (drop 9 (stdout (snd (check_database (Inr ()) str_nat (\<lambda>s. s) sample_world)))) = 2"
proof -
  have h: "first_fault (take 5 (faults sample_world)) = None"
    by (simp add: sample_world_def)
  have ice: "select_rows ice_query sample_terms =
       [\<lparr>id_col = 1, term_string = Some ''White ice'', status = ''published''\<rparr>,
        \<lparr>id_col = 4, term_string = Some ''ICEBERG'', status = ''archived''\<rparr>]"
    by (simp add: select_rows_def Query_filter_def Term_query_def sample_terms_def
        lower_def lower_char_def)
  have tbl: "term_table sample_world = sample_terms" "stdout sample_world = []"
    by (simp_all add: sample_world_def)
  have len: "length sample_terms = 4" by (simp add: sample_terms_def)
  show ?thesis
    using h ice_count_matches_lines [OF h, of "()" str_nat "\<lambda>s. s"]
    by (simp add: tbl ice len str_opt_def str_nat.simps digit_def)
qed

subsection \<open>The table is only read\<close>

lemma frame_bind:
  assumes "\<And>w. term_table (snd (m w)) = term_table w"
    and "\<And>x w. term_table (snd (f x w)) = term_table w"
  shows "term_table (snd (bind m f w)) = term_table w"
proof (cases "m w")
  case (Pair r w')
  with assms(1) [of w] have w': "term_table w' = term_table w" by simp
  show ?thesis
  proof (cases r)
    case (Inl e)
    with Pair w' show ?thesis by (simp add: bind_def)
  next
    case (Inr x)
    with Pair assms(2) [of x w'] w' show ?thesis by (simp add: bind_def)
  qed
qed

lemma frame_execute: "term_table (snd (execute f w)) = term_table w"
  by (simp add: execute_def split: list.splits option.splits)

lemma frame_print: "term_table (snd (print s w)) = term_table w"
  by (simp add: print_def)

lemma frame_call: "term_table (snd (call r w)) = term_table w"
  by (simp add: call_def)

lemma frame_for_each_print: "term_table (snd (for_each xs (\<lambda>x. print (f x)) w)) = term_table w"
  by (simp add: for_each_print)

text \<open>
  C7. Whatever the world a run starts in, whichever database calls raise and whether or
  not \<^verbatim>\<open>create_app()\<close> returns, the \<^verbatim>\<open>Term\<close> table after \<^verbatim>\<open>check_database\<close>, and after the
  whole script, is the table before: every statement of the script is a query or a
  \<^verbatim>\<open>print\<close>, and neither writes to the table.
\<close>

theorem check_database_read_only:
  "term_table (snd (check_database create_app sid sst w)) = term_table w
   \<and> term_table (snd (main create_app sid sst w)) = term_table w"
proof -
  have "term_table (snd (check_database create_app sid sst w)) = term_table w"
    unfolding check_database_def app_context_def Query_first_def Query_all_def Query_count_def
    by (intro frame_bind frame_execute frame_print frame_call frame_for_each_print)
  then show ?thesis
    by (auto simp: main_def split: prod.splits sum.splits)
qed

subsection \<open>Exceptions\<close>



text \<open>An exception of \<^verbatim>\<open>create_app()\<close> itself leaves the script the same way, before
  anything is read or printed.\<close>

lemma create_app_raises:
  "check_database (Inl e) sid sst w = (Inl e, w) \<and> main (Inl e) sid sst w = (1, w)"
  by (simp add: main_def check_database_def bind_call)

subsection \<open>The configuration of the instance\<close>





end
